theory Spec2Isabelle
  imports Complex_Main "HOL-Library.Multiset" "HOL-Library.Sublist"
begin

section \<open>Data model\<close>

text \<open>
  The customer-support chat backend of the repository: the database abstraction layer
  (\<^verbatim>\<open>agents-postgresql/database.py\<close>), its orchestrator
  (\<^verbatim>\<open>agents-postgresql/app.py\<close>) and the stand-alone SQL Server variant
  (\<^verbatim>\<open>agents-sql/app.py\<close>).

  The tables are lists of rows in the engine's physical order. Integers are Python's
  unbounded ints. Decimal amounts are rationals; Python's \<^verbatim>\<open>float()\<close> of a
  decimal is the identity of the model (binary rounding is outside it). Instants and
  calendar dates are integers ordered by time.
\<close>

record customer_row =
  c_customer_id :: int
  c_first_name :: string
  c_last_name :: string
  c_email :: string
  c_phone :: string

record order_row =
  o_order_id :: int
  o_customer_id :: int
  o_order_date :: int
  o_total_amount :: rat
  o_status :: string

record order_item_row =
  oi_order_id :: int
  oi_product_id :: int

record product_row =
  p_product_id :: int
  p_product_name :: string

record conversation_row =
  h_id :: int
  h_customer_id :: int
  h_user_message :: string
  h_ai_response :: string
  h_timestamp :: int

text \<open>The dictionaries the repository operations return, and a chat message.\<close>

record turn =
  user :: string
  assistant :: string
  timestamp :: string

record order_summary =
  order_id :: int
  date :: string
  amount :: rat
  status :: string
  products :: string

record customer_context =
  name :: string
  email :: string
  phone :: string
  total_orders :: int
  total_spent :: rat
  recent_orders :: "order_summary list"

record message =
  role :: string
  content :: string

text \<open>
  Exceptions are values. \<open>StorageError\<close> stands for whatever the driver (psycopg2,
  pyodbc) raises, \<open>ModelError\<close> for whatever the Azure OpenAI client raises; each
  carries the text \<^verbatim>\<open>str(e)\<close> gives.
\<close>

datatype error =
  StorageError string
  | ValueError string
  | NotImplementedError string
  | ModelError string

fun str_error :: "error \<Rightarrow> string" where
  "str_error (StorageError m) = m"
| "str_error (ValueError m) = m"
| "str_error (NotImplementedError m) = m"
| "str_error (ModelError m) = m"

text \<open>
  What happens outside the process is recorded in a trace: every attempt to connect,
  every connection obtained, every \<^verbatim>\<open>conn.close()\<close>, every exit of a
  \<^verbatim>\<open>with\<close> block around a pyodbc connection, and every request sent to the
  model with the messages it carried.
\<close>

datatype event =
  ConnAttempt
  | ConnOpened
  | ConnClosed
  | CtxExit
  | ModelCall "message list"

text \<open>
  The storage engine may refuse the connection, or fail the \<open>k\<close>-th statement
  (counted from 0) of an operation; the text is the driver's.
\<close>

datatype fault =
  NoFault
  | ConnectFails string
  | ExecuteFails nat string

text \<open>
  Modelled from the spec: the table declarations are not part of the repository's
  sources. \<open>next_id\<close> is the generator of \<^verbatim>\<open>conversation_history.id\<close> and
  \<open>clock\<close> the server time a new row's \<^verbatim>\<open>timestamp\<close> defaults to (the spec's
  ``inserts one row with server-assigned timestamp'', the code's
  \<^verbatim>\<open>RETURNING id\<close> and \<^verbatim>\<open>OUTPUT INSERTED.ID\<close>).
\<close>

record world =
  t_customers :: "customer_row list"
  t_orders :: "order_row list"
  t_order_items :: "order_item_row list"
  t_products :: "product_row list"
  t_conversation_history :: "conversation_row list"
  next_id :: int
  clock :: int
  fault :: fault
  trace :: "event list"

text \<open>
  Python's built-in formatting, which the repository calls and does not define:
  \<^verbatim>\<open>str\<close> of an int inside an f-string, the \<^verbatim>\<open>:.2f\<close> format, and
  \<^verbatim>\<open>strftime\<close> with the date and the date-time patterns.
\<close>

record pyfmt =
  str_int :: "int \<Rightarrow> string"
  fmt_2f :: "rat \<Rightarrow> string"
  strftime_date :: "int \<Rightarrow> string"
  strftime_datetime :: "int \<Rightarrow> string"

section \<open>Strings\<close>

definition lower_char :: "char \<Rightarrow> char" where
  "lower_char c =
     (case map_of (zip ''ABCDEFGHIJKLMNOPQRSTUVWXYZ'' ''abcdefghijklmnopqrstuvwxyz'') c of
        None \<Rightarrow> c
      | Some l \<Rightarrow> l)"

text \<open>\<^verbatim>\<open>str.lower()\<close> on the ASCII letters; every other character is kept.\<close>

definition lower :: "string \<Rightarrow> string" where
  "lower s = map lower_char s"

text \<open>\<^verbatim>\<open>sep.join(xs)\<close>, which is also \<^verbatim>\<open>STRING_AGG(x, sep)\<close> on a group.\<close>

fun join :: "string \<Rightarrow> string list \<Rightarrow> string" where
  "join sep [] = []"
| "join sep [x] = x"
| "join sep (x # y # ys) = x @ sep @ join sep (y # ys)"

text \<open>An f-string field holding \<^verbatim>\<open>os.getenv(k)\<close>: an unset variable prints as None.\<close>

definition fstr_env :: "(string \<Rightarrow> string option) \<Rightarrow> string \<Rightarrow> string" where
  "fstr_env env k = (case env k of None \<Rightarrow> ''None'' | Some v \<Rightarrow> v)"

section \<open>The adapter factory\<close>

datatype adapter =
  PostgreSQLAdapter string
  | SQLDatabaseAdapter string
  | CosmosDBAdapter "string option"

definition sql_connection_string :: "(string \<Rightarrow> string option) \<Rightarrow> string" where
  "sql_connection_string env =
     ''DRIVER={ODBC Driver 18 for SQL Server};''
     @ ''SERVER='' @ fstr_env env ''SQL_SERVER'' @ '';''
     @ ''DATABASE='' @ fstr_env env ''SQL_DATABASE'' @ '';''
     @ ''UID='' @ fstr_env env ''SQL_USER'' @ '';''
     @ ''PWD='' @ fstr_env env ''SQL_PASSWORD'' @ '';''
     @ ''Encrypt=yes;''
     @ ''TrustServerCertificate=yes;''
     @ ''Connection Timeout=30;''"

definition postgres_connection_string :: "(string \<Rightarrow> string option) \<Rightarrow> string" where
  "postgres_connection_string env =
     ''host='' @ fstr_env env ''POSTGRES_HOST'' @ '' ''
     @ ''port=5432 ''
     @ ''dbname='' @ fstr_env env ''POSTGRES_DATABASE'' @ '' ''
     @ ''user='' @ fstr_env env ''POSTGRES_USER'' @ '' ''
     @ ''password='' @ fstr_env env ''POSTGRES_PASSWORD'' @ '' ''
     @ ''sslmode=require''"

text \<open>
  \<^verbatim>\<open>DatabaseFactory.create_adapter\<close>. The constructors of the adapters import
  their driver and keep the connection string; none of them connects.
\<close>

definition create_adapter :: "(string \<Rightarrow> string option) \<Rightarrow> string \<Rightarrow> error + adapter" where
  "create_adapter env db_type0 =
     (let db_type = lower db_type0 in
      if db_type = ''sql'' then Inr (SQLDatabaseAdapter (sql_connection_string env))
      else if db_type = ''cosmos'' then Inr (CosmosDBAdapter (env ''COSMOS_CONNECTION_STRING''))
      else if db_type = ''postgresql'' then Inr (PostgreSQLAdapter (postgres_connection_string env))
      else Inl (ValueError (''Unknown database type: '' @ db_type)))"

section \<open>Driver calls and queries\<close>

definition log_event :: "event \<Rightarrow> world \<Rightarrow> world" where
  "log_event e w = w\<lparr>trace := trace w @ [e]\<rparr>"

text \<open>\<^verbatim>\<open>psycopg2.connect\<close> and \<^verbatim>\<open>pyodbc.connect\<close>.\<close>

definition connect :: "world \<Rightarrow> world \<times> (error + unit)" where
  "connect w =
     (let w1 = log_event ConnAttempt w in
      case fault w of
        ConnectFails m \<Rightarrow> (w1, Inl (StorageError m))
      | _ \<Rightarrow> (log_event ConnOpened w1, Inr ()))"

definition close :: "world \<Rightarrow> world" where
  "close w = log_event ConnClosed w"

text \<open>
  Leaving \<^verbatim>\<open>with conn:\<close>, normally or by an exception. What the driver's
  context manager does to the connection there is the driver's business; the model
  records that the block was left.
\<close>

definition ctx_exit :: "world \<Rightarrow> world" where
  "ctx_exit w = log_event CtxExit w"

definition statement_fault :: "world \<Rightarrow> nat \<Rightarrow> error option" where
  "statement_fault w k =
     (case fault w of
        ExecuteFails j m \<Rightarrow> (if j = k then Some (StorageError m) else None)
      | _ \<Rightarrow> None)"

text \<open>
  \<^verbatim>\<open>ORDER BY key DESC\<close>. Rows with equal keys come in an order the engine
  chooses; here it follows from the physical order of the table, which is arbitrary.
\<close>

definition order_by_desc :: "('a \<Rightarrow> int) \<Rightarrow> 'a list \<Rightarrow> 'a list" where
  "order_by_desc key xs = rev (sort_key key xs)"

text \<open>
  The history query of the three implementations, \<^verbatim>\<open>execute\<close> and
  \<^verbatim>\<open>fetchall\<close>:
  \<^verbatim>\<open>SELECT user_message, ai_response, timestamp FROM conversation_history
  WHERE customer_id = %s ORDER BY timestamp DESC LIMIT %s\<close>
  (\<^verbatim>\<open>SELECT TOP (?) ...\<close> on SQL Server). Both engines reject a negative row
  count when the statement runs.
\<close>

definition select_history :: "world \<Rightarrow> int \<Rightarrow> int \<Rightarrow> error + conversation_row list" where
  "select_history w customer_id limit =
     (case statement_fault w 0 of
        Some e \<Rightarrow> Inl e
      | None \<Rightarrow>
          if limit < 0 then Inl (StorageError ''the row count must not be negative'')
          else Inr (take (nat limit)
                 (order_by_desc h_timestamp
                    (filter (\<lambda>r. h_customer_id r = customer_id) (t_conversation_history w)))))"

definition turn_of_row :: "pyfmt \<Rightarrow> conversation_row \<Rightarrow> turn" where
  "turn_of_row py row =
     \<lparr>user = h_user_message row,
      assistant = h_ai_response row,
      timestamp = strftime_datetime py (h_timestamp row)\<rparr>"

text \<open>\<^verbatim>\<open>SUM\<close> over a group: NULL when the group has no value to add.\<close>

fun sql_sum :: "rat list \<Rightarrow> rat option" where
  "sql_sum [] = None"
| "sql_sum (x # xs) = Some (sum_list (x # xs))"

text \<open>
  The aggregate query without its \<^verbatim>\<open>COALESCE\<close>:
  \<^verbatim>\<open>SELECT c.first_name, c.last_name, c.email, c.phone, COUNT(o.order_id),
  SUM(o.total_amount) FROM customers c LEFT JOIN orders o ON c.customer_id = o.customer_id
  WHERE c.customer_id = %s GROUP BY c.customer_id, c.first_name, c.last_name, c.email,
  c.phone\<close>. A customer without orders is joined to one row of NULLs, which
  \<^verbatim>\<open>COUNT\<close> and \<^verbatim>\<open>SUM\<close> skip.
\<close>

definition customer_aggregate :: "world \<Rightarrow> int \<Rightarrow> (customer_row \<times> int \<times> rat option) list" where
  "customer_aggregate w customer_id =
     (let joined =
            concat (map (\<lambda>c.
              case filter (\<lambda>od. o_customer_id od = c_customer_id c) (t_orders w) of
                [] \<Rightarrow> [(c, None)]
              | os \<Rightarrow> map (\<lambda>od. (c, Some od)) os)
              (filter (\<lambda>c. c_customer_id c = customer_id) (t_customers w)))
      in map (\<lambda>k.
            let os = List.map_filter snd (filter (\<lambda>(c, od). c = k) joined)
            in (k, int (length os), sql_sum (map o_total_amount os)))
           (remdups (map fst joined)))"

text \<open>\<^verbatim>\<open>execute\<close> of the aggregate query (statement 0) and \<^verbatim>\<open>fetchone\<close>.\<close>

definition select_customer ::
  "world \<Rightarrow> int \<Rightarrow> error + (customer_row \<times> int \<times> rat option) option" where
  "select_customer w customer_id =
     (case statement_fault w 0 of
        Some e \<Rightarrow> Inl e
      | None \<Rightarrow>
          Inr (case customer_aggregate w customer_id of [] \<Rightarrow> None | r # _ \<Rightarrow> Some r))"

text \<open>The inner joins \<^verbatim>\<open>orders JOIN order_items JOIN products\<close> of one order.\<close>

definition order_lines :: "world \<Rightarrow> order_row \<Rightarrow> (order_item_row \<times> product_row) list" where
  "order_lines w od =
     concat (map (\<lambda>oi.
        map (\<lambda>p. (oi, p)) (filter (\<lambda>p. p_product_id p = oi_product_id oi) (t_products w)))
        (filter (\<lambda>oi. oi_order_id oi = o_order_id od) (t_order_items w)))"

type_synonym order_key = "int \<times> int \<times> rat \<times> string"

definition order_key :: "order_row \<Rightarrow> order_key" where
  "order_key od = (o_order_id od, o_order_date od, o_total_amount od, o_status od)"

text \<open>
  The detail query:
  \<^verbatim>\<open>SELECT o.order_id, o.order_date, o.total_amount, o.status,
  STRING_AGG(p.product_name, ', ') FROM orders o JOIN order_items oi ON o.order_id =
  oi.order_id JOIN products p ON oi.product_id = p.product_id WHERE o.customer_id = %s
  GROUP BY o.order_id, o.order_date, o.total_amount, o.status ORDER BY o.order_date DESC
  LIMIT 5\<close> (\<^verbatim>\<open>SELECT TOP 5\<close> on SQL Server).
\<close>

definition recent_orders_query :: "world \<Rightarrow> int \<Rightarrow> (order_key \<times> string) list" where
  "recent_orders_query w customer_id =
     (let joined =
            concat (map (\<lambda>od. map (\<lambda>l. (od, l)) (order_lines w od))
              (filter (\<lambda>od. o_customer_id od = customer_id) (t_orders w)));
          groups =
            map (\<lambda>k.
              (k, join '', ''
                    (map (\<lambda>(od, oi, p). p_product_name p)
                       (filter (\<lambda>(od, l). order_key od = k) joined))))
              (remdups (map (\<lambda>(od, l). order_key od) joined))
      in take 5 (order_by_desc (\<lambda>((oid, d, a, s), ps). d) groups))"

text \<open>\<^verbatim>\<open>execute\<close> of the detail query (statement 1) and \<^verbatim>\<open>fetchall\<close>.\<close>

definition select_recent_orders :: "world \<Rightarrow> int \<Rightarrow> error + (order_key \<times> string) list" where
  "select_recent_orders w customer_id =
     (case statement_fault w 1 of
        Some e \<Rightarrow> Inl e
      | None \<Rightarrow> Inr (recent_orders_query w customer_id))"

definition summary_of_row :: "pyfmt \<Rightarrow> order_key \<times> string \<Rightarrow> order_summary" where
  "summary_of_row py row =
     (case row of ((oid, d, a, s), ps) \<Rightarrow>
        \<lparr>order_id = oid, date = strftime_date py d, amount = a, status = s, products = ps\<rparr>)"

text \<open>
  The insert, \<^verbatim>\<open>execute\<close> and \<^verbatim>\<open>commit\<close>: one row with the generated
  identifier and the server's time; the identifier is what \<^verbatim>\<open>RETURNING id\<close>
  and \<^verbatim>\<open>OUTPUT INSERTED.ID\<close> hand back.
\<close>

definition insert_conversation ::
  "world \<Rightarrow> int \<Rightarrow> string \<Rightarrow> string \<Rightarrow> error + (world \<times> int)" where
  "insert_conversation w customer_id user_message ai_response =
     (case statement_fault w 0 of
        Some e \<Rightarrow> Inl e
      | None \<Rightarrow>
          Inr (w\<lparr>t_conversation_history :=
                   t_conversation_history w @
                     [\<lparr>h_id = next_id w, h_customer_id = customer_id,
                       h_user_message = user_message, h_ai_response = ai_response,
                       h_timestamp = clock w\<rparr>],
                 next_id := next_id w + 1\<rparr>,
               next_id w))"

section \<open>The repository operations\<close>

text \<open>
  Each operation takes the world and returns the world it leaves with its result:
  \<open>Inl\<close> an exception that leaves the operation, \<open>Inr\<close> the value returned.
  The \<^verbatim>\<open>except\<close> clauses of \<^verbatim>\<open>PostgreSQLAdapter\<close> print the exception
  and raise it again. The result of the store operations is the Python value returned:
  \<open>None\<close> is Python's \<^verbatim>\<open>None\<close>.
\<close>

definition PostgreSQLAdapter_store_conversation ::
  "world \<Rightarrow> int \<Rightarrow> string \<Rightarrow> string \<Rightarrow> world \<times> (error + int option)" where
  "PostgreSQLAdapter_store_conversation w customer_id user_message ai_response =
     (case connect w of
        (w1, Inl e) \<Rightarrow> (w1, Inl e)
      | (w1, Inr u) \<Rightarrow>
          (case insert_conversation w1 customer_id user_message ai_response of
             Inl e \<Rightarrow> (w1, Inl e)
           | Inr (w2, conversation_id) \<Rightarrow> (close w2, Inr (Some conversation_id))))"

definition PostgreSQLAdapter_get_conversation_history ::
  "pyfmt \<Rightarrow> world \<Rightarrow> int \<Rightarrow> int \<Rightarrow> world \<times> (error + turn list)" where
  "PostgreSQLAdapter_get_conversation_history py w customer_id limit =
     (case connect w of
        (w1, Inl e) \<Rightarrow> (w1, Inl e)
      | (w1, Inr u) \<Rightarrow>
          (case select_history w1 customer_id limit of
             Inl e \<Rightarrow> (w1, Inl e)
           | Inr rows \<Rightarrow> (close w1, Inr (map (turn_of_row py) (rev rows)))))"

definition PostgreSQLAdapter_get_customer_context ::
  "pyfmt \<Rightarrow> world \<Rightarrow> int \<Rightarrow> world \<times> (error + customer_context option)" where
  "PostgreSQLAdapter_get_customer_context py w customer_id =
     (case connect w of
        (w1, Inl e) \<Rightarrow> (w1, Inl e)
      | (w1, Inr u) \<Rightarrow>
          (case select_customer w1 customer_id of
             Inl e \<Rightarrow> (w1, Inl e)
           | Inr None \<Rightarrow> (close w1, Inr None)
           | Inr (Some (c, n, s)) \<Rightarrow>
               (case select_recent_orders w1 customer_id of
                  Inl e \<Rightarrow> (w1, Inl e)
                | Inr orders \<Rightarrow>
                    (close w1,
                     Inr (Some
                       \<lparr>name = c_first_name c @ '' '' @ c_last_name c,
                        email = c_email c,
                        phone = c_phone c,
                        total_orders = n,
                        total_spent = (case s of None \<Rightarrow> 0 | Some t \<Rightarrow> t),
                        recent_orders = map (summary_of_row py) orders\<rparr>)))))"

text \<open>
  \<^verbatim>\<open>SQLDatabaseAdapter\<close>: the queries run inside \<^verbatim>\<open>with self._get_conn() as
  conn:\<close>. The sum is not coalesced by the query; the code maps a NULL or zero sum to 0.
\<close>

definition SQLDatabaseAdapter_store_conversation ::
  "world \<Rightarrow> int \<Rightarrow> string \<Rightarrow> string \<Rightarrow> world \<times> (error + int option)" where
  "SQLDatabaseAdapter_store_conversation w customer_id user_message ai_response =
     (case connect w of
        (w1, Inl e) \<Rightarrow> (w1, Inl e)
      | (w1, Inr u) \<Rightarrow>
          (case insert_conversation w1 customer_id user_message ai_response of
             Inl e \<Rightarrow> (ctx_exit w1, Inl e)
           | Inr (w2, row0) \<Rightarrow> (ctx_exit w2, Inr (Some row0))))"

definition SQLDatabaseAdapter_get_conversation_history ::
  "pyfmt \<Rightarrow> world \<Rightarrow> int \<Rightarrow> int \<Rightarrow> world \<times> (error + turn list)" where
  "SQLDatabaseAdapter_get_conversation_history py w customer_id limit =
     (case connect w of
        (w1, Inl e) \<Rightarrow> (w1, Inl e)
      | (w1, Inr u) \<Rightarrow>
          (case select_history w1 customer_id limit of
             Inl e \<Rightarrow> (ctx_exit w1, Inl e)
           | Inr rows \<Rightarrow> (ctx_exit w1, Inr (map (turn_of_row py) (rev rows)))))"

definition SQLDatabaseAdapter_get_customer_context ::
  "pyfmt \<Rightarrow> world \<Rightarrow> int \<Rightarrow> world \<times> (error + customer_context option)" where
  "SQLDatabaseAdapter_get_customer_context py w customer_id =
     (case connect w of
        (w1, Inl e) \<Rightarrow> (w1, Inl e)
      | (w1, Inr u) \<Rightarrow>
          (case select_customer w1 customer_id of
             Inl e \<Rightarrow> (ctx_exit w1, Inl e)
           | Inr None \<Rightarrow> (ctx_exit w1, Inr None)
           | Inr (Some (c, n, s)) \<Rightarrow>
               (case select_recent_orders w1 customer_id of
                  Inl e \<Rightarrow> (ctx_exit w1, Inl e)
                | Inr orders \<Rightarrow>
                    (ctx_exit w1,
                     Inr (Some
                       \<lparr>name = c_first_name c @ '' '' @ c_last_name c,
                        email = c_email c,
                        phone = c_phone c,
                        total_orders = n,
                        total_spent =
                          (case s of None \<Rightarrow> 0 | Some t \<Rightarrow> if t = 0 then 0 else t),
                        recent_orders = map (summary_of_row py) orders\<rparr>)))))"

text \<open>\<^verbatim>\<open>CosmosDBAdapter\<close>, the placeholder: every operation raises.\<close>

definition CosmosDBAdapter_store_conversation ::
  "world \<Rightarrow> int \<Rightarrow> string \<Rightarrow> string \<Rightarrow> world \<times> (error + int option)" where
  "CosmosDBAdapter_store_conversation w customer_id user_message ai_response =
     (w, Inl (NotImplementedError ''CosmosDBAdapter.store_conversation is not implemented''))"

definition CosmosDBAdapter_get_conversation_history ::
  "pyfmt \<Rightarrow> world \<Rightarrow> int \<Rightarrow> int \<Rightarrow> world \<times> (error + turn list)" where
  "CosmosDBAdapter_get_conversation_history py w customer_id limit =
     (w, Inl (NotImplementedError
        ''CosmosDBAdapter.get_conversation_history is not implemented''))"

definition CosmosDBAdapter_get_customer_context ::
  "pyfmt \<Rightarrow> world \<Rightarrow> int \<Rightarrow> world \<times> (error + customer_context option)" where
  "CosmosDBAdapter_get_customer_context py w customer_id =
     (w, Inl (NotImplementedError ''CosmosDBAdapter.get_customer_context is not implemented''))"

text \<open>The methods of \<^verbatim>\<open>DatabaseAdapter\<close>, dispatched on the adapter's class.\<close>

fun store_conversation ::
  "adapter \<Rightarrow> world \<Rightarrow> int \<Rightarrow> string \<Rightarrow> string \<Rightarrow> world \<times> (error + int option)" where
  "store_conversation (PostgreSQLAdapter cs) = PostgreSQLAdapter_store_conversation"
| "store_conversation (SQLDatabaseAdapter cs) = SQLDatabaseAdapter_store_conversation"
| "store_conversation (CosmosDBAdapter cs) = CosmosDBAdapter_store_conversation"

fun get_conversation_history ::
  "adapter \<Rightarrow> pyfmt \<Rightarrow> world \<Rightarrow> int \<Rightarrow> int \<Rightarrow> world \<times> (error + turn list)" where
  "get_conversation_history (PostgreSQLAdapter cs) = PostgreSQLAdapter_get_conversation_history"
| "get_conversation_history (SQLDatabaseAdapter cs) = SQLDatabaseAdapter_get_conversation_history"
| "get_conversation_history (CosmosDBAdapter cs) = CosmosDBAdapter_get_conversation_history"

fun get_customer_context ::
  "adapter \<Rightarrow> pyfmt \<Rightarrow> world \<Rightarrow> int \<Rightarrow> world \<times> (error + customer_context option)" where
  "get_customer_context (PostgreSQLAdapter cs) = PostgreSQLAdapter_get_customer_context"
| "get_customer_context (SQLDatabaseAdapter cs) = SQLDatabaseAdapter_get_customer_context"
| "get_customer_context (CosmosDBAdapter cs) = CosmosDBAdapter_get_customer_context"

text \<open>
  The data access of \<^verbatim>\<open>agents-sql/app.py\<close>. \<^verbatim>\<open>save_conversation\<close> has
  no \<^verbatim>\<open>OUTPUT\<close> clause and no \<^verbatim>\<open>return\<close>.
\<close>

definition agents_sql_get_customer_context ::
  "pyfmt \<Rightarrow> world \<Rightarrow> int \<Rightarrow> world \<times> (error + customer_context option)" where
  "agents_sql_get_customer_context py w customer_id =
     (case connect w of
        (w1, Inl e) \<Rightarrow> (w1, Inl e)
      | (w1, Inr u) \<Rightarrow>
          (case select_customer w1 customer_id of
             Inl e \<Rightarrow> (ctx_exit w1, Inl e)
           | Inr None \<Rightarrow> (ctx_exit w1, Inr None)
           | Inr (Some (c, n, s)) \<Rightarrow>
               (case select_recent_orders w1 customer_id of
                  Inl e \<Rightarrow> (ctx_exit w1, Inl e)
                | Inr orders \<Rightarrow>
                    (ctx_exit w1,
                     Inr (Some
                       \<lparr>name = c_first_name c @ '' '' @ c_last_name c,
                        email = c_email c,
                        phone = c_phone c,
                        total_orders = n,
                        total_spent =
                          (case s of None \<Rightarrow> 0 | Some t \<Rightarrow> if t = 0 then 0 else t),
                        recent_orders = map (summary_of_row py) orders\<rparr>)))))"

definition agents_sql_save_conversation ::
  "world \<Rightarrow> int \<Rightarrow> string \<Rightarrow> string \<Rightarrow> world \<times> (error + int option)" where
  "agents_sql_save_conversation w customer_id user_message ai_response =
     (case connect w of
        (w1, Inl e) \<Rightarrow> (w1, Inl e)
      | (w1, Inr u) \<Rightarrow>
          (case insert_conversation w1 customer_id user_message ai_response of
             Inl e \<Rightarrow> (ctx_exit w1, Inl e)
           | Inr (w2, generated) \<Rightarrow> (ctx_exit w2, Inr None)))"

definition agents_sql_get_conversation_history ::
  "pyfmt \<Rightarrow> world \<Rightarrow> int \<Rightarrow> int \<Rightarrow> world \<times> (error + turn list)" where
  "agents_sql_get_conversation_history py w customer_id limit =
     (case connect w of
        (w1, Inl e) \<Rightarrow> (w1, Inl e)
      | (w1, Inr u) \<Rightarrow>
          (case select_history w1 customer_id limit of
             Inl e \<Rightarrow> (ctx_exit w1, Inl e)
           | Inr rows \<Rightarrow> (ctx_exit w1, Inr (map (turn_of_row py) (rev rows)))))"

section \<open>Prompt assembly\<close>

definition nl :: string where
  "nl = [CHR 0x0A]"

definition agents_postgresql_order_line :: "pyfmt \<Rightarrow> order_summary \<Rightarrow> string" where
  "agents_postgresql_order_line py od =
     ''- Order #'' @ str_int py (order_id od) @ '': '' @ products od
     @ '' ($'' @ fmt_2f py (amount od) @ '', Status: '' @ status od
     @ '', Date: '' @ date od @ '')''"

definition agents_postgresql_system_message :: "pyfmt \<Rightarrow> customer_context \<Rightarrow> string" where
  "agents_postgresql_system_message py customer_context =
     ''You are a helpful customer service AI assistant for an e-commerce company.'' @ nl
     @ ''    '' @ nl
     @ ''Customer Information:'' @ nl
     @ ''- Name: '' @ name customer_context @ nl
     @ ''- Email: '' @ email customer_context @ nl
     @ ''- Phone: '' @ phone customer_context @ nl
     @ ''- Total Orders: '' @ str_int py (total_orders customer_context) @ nl
     @ ''- Total Spent: $'' @ fmt_2f py (total_spent customer_context) @ nl
     @ nl
     @ ''Recent Orders:'' @ nl
     @ join nl (map (agents_postgresql_order_line py) (recent_orders customer_context)) @ nl
     @ nl
     @ ''Provide helpful, personalized responses based on this customer's history. Be friendly and professional.''"

definition agents_sql_order_line :: "pyfmt \<Rightarrow> order_summary \<Rightarrow> string" where
  "agents_sql_order_line py od =
     ''- Order #'' @ str_int py (order_id od) @ '': '' @ products od
     @ '' ($'' @ fmt_2f py (amount od) @ '', '' @ status od @ '', '' @ date od @ '')''"

definition agents_sql_system_prompt :: "pyfmt \<Rightarrow> customer_context \<Rightarrow> string" where
  "agents_sql_system_prompt py customer =
     nl
     @ ''You are a helpful customer support AI for an e-commerce company.'' @ nl
     @ nl
     @ ''Customer:'' @ nl
     @ ''- Name: '' @ name customer @ nl
     @ ''- Email: '' @ email customer @ nl
     @ ''- Phone: '' @ phone customer @ nl
     @ ''- Orders: '' @ str_int py (total_orders customer) @ nl
     @ ''- Total Spent: $'' @ fmt_2f py (total_spent customer) @ nl
     @ nl
     @ ''Recent Orders:'' @ nl
     @ join nl (map (agents_sql_order_line py) (recent_orders customer)) @ nl"

text \<open>
  The loop \<^verbatim>\<open>for entry in conversation_history: messages.append(...);
  messages.append(...)\<close>, the same in both applications.
\<close>

fun append_history :: "message list \<Rightarrow> turn list \<Rightarrow> message list" where
  "append_history messages [] = messages"
| "append_history messages (entry # rest) =
     append_history
       (messages @ [\<lparr>role = ''user'', content = user entry\<rparr>,
                    \<lparr>role = ''assistant'', content = assistant entry\<rparr>])
       rest"

text \<open>
  The message list of \<^verbatim>\<open>generate_ai_response\<close>: the system message, the history,
  the current message. It is a new list; the history and the context are only read.
\<close>

definition build_messages :: "string \<Rightarrow> turn list \<Rightarrow> string \<Rightarrow> message list" where
  "build_messages system_message conversation_history user_message =
     append_history [\<lparr>role = ''system'', content = system_message\<rparr>] conversation_history
     @ [\<lparr>role = ''user'', content = user_message\<rparr>]"

definition agents_postgresql_messages ::
  "pyfmt \<Rightarrow> customer_context \<Rightarrow> turn list \<Rightarrow> string \<Rightarrow> message list" where
  "agents_postgresql_messages py customer_context conversation_history user_message =
     build_messages (agents_postgresql_system_message py customer_context)
       conversation_history user_message"

definition agents_sql_messages ::
  "pyfmt \<Rightarrow> customer_context \<Rightarrow> turn list \<Rightarrow> string \<Rightarrow> message list" where
  "agents_sql_messages py customer history user_message =
     build_messages (agents_sql_system_prompt py customer) history user_message"

section \<open>The orchestrator and the chat route\<close>

text \<open>
  \<^verbatim>\<open>client.chat.completions.create\<close> is a parameter: given the messages it
  returns the assistant's text or raises. \<^verbatim>\<open>generate_ai_response\<close> of
  \<^verbatim>\<open>agents-postgresql/app.py\<close> reads \<^verbatim>\<open>DB_TYPE\<close> (default
  \<^verbatim>\<open>postgresql\<close>) and calls the history with its default limit 5.
\<close>

definition agents_postgresql_generate_ai_response ::
  "pyfmt \<Rightarrow> (string \<Rightarrow> string option) \<Rightarrow> (message list \<Rightarrow> error + string) \<Rightarrow>
   world \<Rightarrow> int \<Rightarrow> string \<Rightarrow> world \<times> (error + string)" where
  "agents_postgresql_generate_ai_response py env llm w customer_id user_message =
     (let db_type = (case env ''DB_TYPE'' of None \<Rightarrow> ''postgresql'' | Some v \<Rightarrow> v) in
      case create_adapter env db_type of
        Inl e \<Rightarrow> (w, Inl e)
      | Inr db \<Rightarrow>
          (case get_customer_context db py w customer_id of
             (w1, Inl e) \<Rightarrow> (w1, Inl e)
           | (w1, Inr None) \<Rightarrow>
               (w1, Inr ''I couldn't find your customer information. Please verify your customer ID.'')
           | (w1, Inr (Some customer_context)) \<Rightarrow>
               (case get_conversation_history db py w1 customer_id 5 of
                  (w2, Inl e) \<Rightarrow> (w2, Inl e)
                | (w2, Inr conversation_history) \<Rightarrow>
                    (let messages =
                           agents_postgresql_messages py customer_context
                             conversation_history user_message;
                         w3 = log_event (ModelCall messages) w2
                     in case llm messages of
                          Inl e \<Rightarrow> (w3, Inl e)
                        | Inr ai_response \<Rightarrow>
                            (case store_conversation db w3 customer_id user_message ai_response of
                               (w4, Inl e) \<Rightarrow> (w4, Inl e)
                             | (w4, Inr stored) \<Rightarrow> (w4, Inr ai_response))))))"

definition agents_sql_generate_ai_response ::
  "pyfmt \<Rightarrow> (message list \<Rightarrow> error + string) \<Rightarrow>
   world \<Rightarrow> int \<Rightarrow> string \<Rightarrow> world \<times> (error + string)" where
  "agents_sql_generate_ai_response py llm w customer_id user_message =
     (case agents_sql_get_customer_context py w customer_id of
        (w1, Inl e) \<Rightarrow> (w1, Inl e)
      | (w1, Inr None) \<Rightarrow> (w1, Inr ''Customer not found. Please check your customer ID.'')
      | (w1, Inr (Some customer)) \<Rightarrow>
          (case agents_sql_get_conversation_history py w1 customer_id 5 of
             (w2, Inl e) \<Rightarrow> (w2, Inl e)
           | (w2, Inr history) \<Rightarrow>
               (let messages = agents_sql_messages py customer history user_message;
                    w3 = log_event (ModelCall messages) w2
                in case llm messages of
                     Inl e \<Rightarrow> (w3, Inl e)
                   | Inr ai_text \<Rightarrow>
                       (case agents_sql_save_conversation w3 customer_id user_message ai_text of
                          (w4, Inl e) \<Rightarrow> (w4, Inl e)
                        | (w4, Inr saved) \<Rightarrow> (w4, Inr ai_text)))))"

text \<open>
  The body of a chat request: \<^verbatim>\<open>data.get(k)\<close> is \<open>None\<close> for a missing key,
  and \<^verbatim>\<open>not\<close> of it holds for a missing key, the identifier 0 and the empty
  message. The reply is the JSON object with its status: \<^verbatim>\<open>{"response": ...}\<close>
  with 200, or \<^verbatim>\<open>{"error": ...}\<close> with 400 or 500.
\<close>

record chat_request =
  req_customer_id :: "int option"
  req_message :: "string option"

datatype chat_reply =
  Response string
  | Error nat string

definition agents_postgresql_chat ::
  "pyfmt \<Rightarrow> (string \<Rightarrow> string option) \<Rightarrow> (message list \<Rightarrow> error + string) \<Rightarrow>
   world \<Rightarrow> chat_request \<Rightarrow> world \<times> chat_reply" where
  "agents_postgresql_chat py env llm w data =
     (case (req_customer_id data, req_message data) of
        (Some customer_id, Some msg) \<Rightarrow>
          if customer_id = 0 \<or> msg = [] then (w, Error 400 ''customer_id and message required'')
          else (case agents_postgresql_generate_ai_response py env llm w customer_id msg of
                  (w1, Inr reply) \<Rightarrow> (w1, Response reply)
                | (w1, Inl e) \<Rightarrow> (w1, Error 500 (str_error e)))
      | _ \<Rightarrow> (w, Error 400 ''customer_id and message required''))"

definition agents_sql_chat ::
  "pyfmt \<Rightarrow> (message list \<Rightarrow> error + string) \<Rightarrow>
   world \<Rightarrow> chat_request \<Rightarrow> world \<times> chat_reply" where
  "agents_sql_chat py llm w data =
     (case (req_customer_id data, req_message data) of
        (Some customer_id, Some msg) \<Rightarrow>
          if customer_id = 0 \<or> msg = [] then (w, Error 400 ''customer_id and message required'')
          else (case agents_sql_generate_ai_response py llm w customer_id msg of
                  (w1, Inr reply) \<Rightarrow> (w1, Response reply)
                | (w1, Inl e) \<Rightarrow> (w1, Error 500 (str_error e)))
      | _ \<Rightarrow> (w, Error 400 ''customer_id and message required''))"

text \<open>The connections held open at the end of a trace: those obtained and not closed.\<close>

definition open_connections :: "event list \<Rightarrow> int" where
  "open_connections tr = int (count_list tr ConnOpened) - int (count_list tr ConnClosed)"

text \<open>
  The world after one turn was stored through one connection: the row appended with the
  generated identifier and the server's time, the generator advanced, and the events of
  the connection, the last of which is \<open>e\<close>.
\<close>

definition stored :: "world \<Rightarrow> int \<Rightarrow> string \<Rightarrow> string \<Rightarrow> event \<Rightarrow> world" where
  "stored w customer_id user_message ai_response e =
     w\<lparr>t_conversation_history :=
         t_conversation_history w @
           [\<lparr>h_id = next_id w, h_customer_id = customer_id, h_user_message = user_message,
             h_ai_response = ai_response, h_timestamp = clock w\<rparr>],
       next_id := next_id w + 1,
       trace := trace w @ [ConnAttempt, ConnOpened, e]\<rparr>"

text \<open>The requests sent to the model along a trace, in order.\<close>

fun model_calls :: "event list \<Rightarrow> message list list" where
  "model_calls [] = []"
| "model_calls (ModelCall messages # tr) = messages # model_calls tr"
| "model_calls (e # tr) = model_calls tr"

section \<open>Example data\<close>

text \<open>
  A formatter that is right on the values of the examples, an environment with the
  PostgreSQL settings, a model and a small shop: customer 1 has three orders, the last of
  them without line items, and five stored turns; customer 2 has no order and no turn;
  nobody has the identifier 3.
\<close>

definition example_py :: pyfmt where
  "example_py =
     \<lparr>str_int =
        (\<lambda>i. if i = 0 then ''0'' else if i = 3 then ''3'' else if i = 10 then ''10''
             else if i = 11 then ''11'' else ''?''),
      fmt_2f =
        (\<lambda>a. if a = 0 then ''0.00'' else if a = 50 then ''50.00''
             else if a = 100 then ''100.00'' else if a = 150 then ''150.00'' else ''?''),
      strftime_date =
        (\<lambda>d. if d = 20 then ''2024-05-20'' else if d = 21 then ''2024-05-21''
             else if d = 22 then ''2024-05-22'' else ''?''),
      strftime_datetime =
        (\<lambda>t. if t = 3 then ''2024-06-01 12:00:03'' else if t = 4 then ''2024-06-01 12:00:04''
             else if t = 5 then ''2024-06-01 12:00:05'' else ''?'')\<rparr>"

definition example_env :: "string \<Rightarrow> string option" where
  "example_env k =
     (if k = ''POSTGRES_HOST'' then Some ''db''
      else if k = ''POSTGRES_DATABASE'' then Some ''shop''
      else if k = ''POSTGRES_USER'' then Some ''app''
      else if k = ''POSTGRES_PASSWORD'' then Some ''s3cret''
      else None)"

definition example_llm :: "message list \<Rightarrow> error + string" where
  "example_llm messages = Inr ''Your order is on its way.''"

definition shop :: world where
  "shop =
     \<lparr>t_customers =
        [\<lparr>c_customer_id = 1, c_first_name = ''Ada'', c_last_name = ''Byron'',
          c_email = ''ada@example.org'', c_phone = ''555-0100''\<rparr>,
         \<lparr>c_customer_id = 2, c_first_name = ''Alan'', c_last_name = ''Ray'',
          c_email = ''alan@example.org'', c_phone = []\<rparr>],
      t_orders =
        [\<lparr>o_order_id = 10, o_customer_id = 1, o_order_date = 20, o_total_amount = 100,
          o_status = ''shipped''\<rparr>,
         \<lparr>o_order_id = 11, o_customer_id = 1, o_order_date = 21, o_total_amount = 50,
          o_status = ''pending''\<rparr>,
         \<lparr>o_order_id = 12, o_customer_id = 1, o_order_date = 22, o_total_amount = 0,
          o_status = ''new''\<rparr>],
      t_order_items =
        [\<lparr>oi_order_id = 10, oi_product_id = 100\<rparr>,
         \<lparr>oi_order_id = 10, oi_product_id = 101\<rparr>,
         \<lparr>oi_order_id = 11, oi_product_id = 100\<rparr>],
      t_products =
        [\<lparr>p_product_id = 100, p_product_name = ''Widget''\<rparr>,
         \<lparr>p_product_id = 101, p_product_name = ''Gadget''\<rparr>],
      t_conversation_history =
        [\<lparr>h_id = 1, h_customer_id = 1, h_user_message = ''u1'', h_ai_response = ''a1'',
          h_timestamp = 1\<rparr>,
         \<lparr>h_id = 2, h_customer_id = 1, h_user_message = ''u2'', h_ai_response = ''a2'',
          h_timestamp = 2\<rparr>,
         \<lparr>h_id = 3, h_customer_id = 1, h_user_message = ''u3'', h_ai_response = ''a3'',
          h_timestamp = 3\<rparr>,
         \<lparr>h_id = 4, h_customer_id = 1, h_user_message = ''u4'', h_ai_response = ''a4'',
          h_timestamp = 4\<rparr>,
         \<lparr>h_id = 5, h_customer_id = 1, h_user_message = ''u5'', h_ai_response = ''a5'',
          h_timestamp = 5\<rparr>],
      next_id = 6,
      clock = 6,
      fault = NoFault,
      trace = []\<rparr>"

section \<open>Prompt assembly: shape and independence\<close>

lemma append_history_eq:
  "append_history messages history =
     messages @ concat (map (\<lambda>entry. [\<lparr>role = ''user'', content = user entry\<rparr>,
                                      \<lparr>role = ''assistant'', content = assistant entry\<rparr>]) history)"
  by (induction history arbitrary: messages) simp_all

lemma build_messages_eq:
  "build_messages sys history msg =
     \<lparr>role = ''system'', content = sys\<rparr>
     # concat (map (\<lambda>entry. [\<lparr>role = ''user'', content = user entry\<rparr>,
                              \<lparr>role = ''assistant'', content = assistant entry\<rparr>]) history)
     @ [\<lparr>role = ''user'', content = msg\<rparr>]"
  by (simp add: build_messages_def append_history_eq)


text \<open>
  C10. The first message of the prompt is the system message rendered from the customer
  context alone: whatever the history and the new message are, it is the same message.
\<close>

theorem system_message_depends_on_context_only:
  "hd (agents_postgresql_messages py ctx h1 m1) = hd (agents_postgresql_messages py ctx h2 m2)
   \<and> hd (agents_postgresql_messages py ctx h1 m1) =
       \<lparr>role = ''system'', content = agents_postgresql_system_message py ctx\<rparr>
   \<and> hd (agents_sql_messages py ctx h1 m1) = hd (agents_sql_messages py ctx h2 m2)
   \<and> hd (agents_sql_messages py ctx h1 m1) =
       \<lparr>role = ''system'', content = agents_sql_system_prompt py ctx\<rparr>"
  by (simp add: agents_postgresql_messages_def agents_sql_messages_def build_messages_eq)

section \<open>The adapter factory: a closed set of identifiers\<close>

text \<open>
  C7. \<^verbatim>\<open>create_adapter\<close> lower-cases the identifier and compares it with
  \<^verbatim>\<open>sql\<close>, \<^verbatim>\<open>cosmos\<close> and \<^verbatim>\<open>postgresql\<close>. On one of these it returns
  an adapter, the same for identifiers that differ in case only. On anything else it
  raises \<^verbatim>\<open>ValueError\<close>, which is not the driver's error, with the message
  \<^verbatim>\<open>Unknown database type: \<close> followed by the lower-cased identifier; the
  orchestrator then ends with that error in the world it started from, so nothing was
  connected to.
\<close>

theorem create_adapter_closed_set:
  "(lower other = lower db_type \<longrightarrow> create_adapter env other = create_adapter env db_type)
   \<and> (\<forall>m. create_adapter env db_type \<noteq> Inl (StorageError m))
   \<and> (lower db_type \<in> {''sql'', ''cosmos'', ''postgresql''} \<longrightarrow>
      (\<exists>a. create_adapter env db_type = Inr a))
   \<and> (lower db_type \<notin> {''sql'', ''cosmos'', ''postgresql''} \<longrightarrow>
        create_adapter env db_type =
          Inl (ValueError (''Unknown database type: '' @ lower db_type))
        \<and> (env ''DB_TYPE'' = Some db_type \<longrightarrow>
             agents_postgresql_generate_ai_response py env llm w customer_id user_message =
               (w, Inl (ValueError (''Unknown database type: '' @ lower db_type)))))"
  by (auto simp add: create_adapter_def agents_postgresql_generate_ai_response_def Let_def)

theorem create_adapter_closed_set_witness:
  "create_adapter (\<lambda>k. if k = ''DB_TYPE'' then Some ''Oracle'' else None) ''Oracle'' =
     Inl (ValueError ''Unknown database type: oracle'')
   \<and> agents_postgresql_generate_ai_response example_py
        (\<lambda>k. if k = ''DB_TYPE'' then Some ''Oracle'' else None) example_llm shop 1 ''hi'' =
       (shop, Inl (ValueError ''Unknown database type: oracle''))
   \<and> (\<exists>a. create_adapter (\<lambda>k. None) ''PostgreSQL'' = Inr a)
   \<and> create_adapter (\<lambda>k. None) ''postgresql'' = create_adapter (\<lambda>k. None) ''PostgreSQL''"
  using create_adapter_closed_set [where db_type = "''Oracle''" and other = "''ORACLE''"
      and env = "\<lambda>k. if k = ''DB_TYPE'' then Some ''Oracle'' else None"
      and py = example_py and llm = example_llm and w = shop and customer_id = 1
      and user_message = "''hi''"]
    create_adapter_closed_set [where db_type = "''PostgreSQL''" and other = "''postgresql''"
      and env = "\<lambda>k. None"]
  by (simp add: lower_def lower_char_def)

section \<open>The conversation history\<close>

lemma select_history_log_event [simp]:
  "select_history (log_event e w) customer_id limit = select_history w customer_id limit"
  by (simp add: select_history_def log_event_def statement_fault_def split: fault.splits)

lemma connect_cases:
  "(\<exists>m. connect w = (log_event ConnAttempt w, Inl (StorageError m)) \<and> fault w = ConnectFails m)
   \<or> connect w = (log_event ConnOpened (log_event ConnAttempt w), Inr ())"
  by (cases "fault w") (simp_all add: connect_def Let_def)

lemma connect_NoFault:
  "fault w = NoFault \<Longrightarrow> connect w = (log_event ConnOpened (log_event ConnAttempt w), Inr ())"
  by (simp add: connect_def Let_def)














section \<open>The customer context\<close>

lemma log_event_fields [simp]:
  "t_customers (log_event e w) = t_customers w"
  "t_orders (log_event e w) = t_orders w"
  "t_order_items (log_event e w) = t_order_items w"
  "t_products (log_event e w) = t_products w"
  "t_conversation_history (log_event e w) = t_conversation_history w"
  "next_id (log_event e w) = next_id w"
  "clock (log_event e w) = clock w"
  "fault (log_event e w) = fault w"
  "trace (log_event e w) = trace w @ [e]"
  by (simp_all add: log_event_def)

lemma statement_fault_log_event [simp]:
  "statement_fault (log_event e w) k = statement_fault w k"
  by (simp add: statement_fault_def)

lemma customer_aggregate_log_event [simp]:
  "customer_aggregate (log_event e w) customer_id = customer_aggregate w customer_id"
  by (simp add: customer_aggregate_def)

lemma select_customer_log_event [simp]:
  "select_customer (log_event e w) customer_id = select_customer w customer_id"
  by (simp add: select_customer_def split: option.splits)

lemma order_lines_log_event [simp]:
  "order_lines (log_event e w) = order_lines w"
  by (rule ext) (simp add: order_lines_def)

lemma recent_orders_query_log_event [simp]:
  "recent_orders_query (log_event e w) customer_id = recent_orders_query w customer_id"
  by (simp add: recent_orders_query_def)

lemma select_recent_orders_log_event [simp]:
  "select_recent_orders (log_event e w) customer_id = select_recent_orders w customer_id"
  by (simp add: select_recent_orders_def split: option.splits)

lemma statement_fault_NoFault [simp]: "fault w = NoFault \<Longrightarrow> statement_fault w k = None"
  by (simp add: statement_fault_def)

text \<open>An absent customer: the aggregate query has no row.\<close>

lemma customer_aggregate_absent:
  assumes "\<forall>c \<in> set (t_customers w). c_customer_id c \<noteq> customer_id"
  shows "customer_aggregate w customer_id = []"
proof -
  have "filter (\<lambda>c. c_customer_id c = customer_id) (t_customers w) = []"
    using assms by (simp add: filter_empty_conv)
  then show ?thesis by (simp add: customer_aggregate_def)
qed

lemma select_customer_absent:
  assumes "fault w = NoFault" and "\<forall>c \<in> set (t_customers w). c_customer_id c \<noteq> customer_id"
  shows "select_customer w customer_id = Inr None"
  using assms by (simp add: select_customer_def customer_aggregate_absent)

text \<open>A customer without orders: one group per customer row, with count 0 and a NULL sum.\<close>

lemma customer_aggregate_no_orders:
  assumes "\<forall>od \<in> set (t_orders w). o_customer_id od \<noteq> customer_id"
  shows "customer_aggregate w customer_id =
           map (\<lambda>k. (k, 0, None))
             (remdups (filter (\<lambda>c. c_customer_id c = customer_id) (t_customers w)))"
proof -
  let ?cs = "filter (\<lambda>c. c_customer_id c = customer_id) (t_customers w)"
  let ?row = "\<lambda>c. case filter (\<lambda>od. o_customer_id od = c_customer_id c) (t_orders w) of
                 [] \<Rightarrow> [(c, None)] | os \<Rightarrow> map (\<lambda>od. (c, Some od)) os"
  have none: "filter (\<lambda>od. o_customer_id od = customer_id) (t_orders w) = []"
    using assms by (simp add: filter_empty_conv)
  have rows: "map ?row ?cs = map (\<lambda>c. [(c, None)]) ?cs"
    by (rule map_cong [OF refl]) (simp add: none)
  have joined: "concat (map ?row ?cs) = map (\<lambda>c. (c, None)) ?cs"
    unfolding rows by simp
  show ?thesis
    unfolding customer_aggregate_def Let_def joined
    by (auto simp add: comp_def List.map_filter_def filter_empty_conv)
qed

lemma select_customer_no_orders:
  assumes "fault w = NoFault"
    and "\<exists>c \<in> set (t_customers w). c_customer_id c = customer_id"
    and "\<forall>od \<in> set (t_orders w). o_customer_id od \<noteq> customer_id"
  shows "\<exists>c. select_customer w customer_id = Inr (Some (c, 0, None))"
proof -
  let ?cs = "filter (\<lambda>c. c_customer_id c = customer_id) (t_customers w)"
  have "set ?cs \<noteq> {}" using assms(2) by auto
  then have "remdups ?cs \<noteq> []" by (metis set_empty set_remdups)
  then obtain k ks where "remdups ?cs = k # ks" by (cases "remdups ?cs") auto
  then show ?thesis
    using assms(1) by (simp add: select_customer_def customer_aggregate_no_orders [OF assms(3)])
qed

lemma recent_orders_query_no_orders:
  assumes "\<forall>od \<in> set (t_orders w). o_customer_id od \<noteq> customer_id"
  shows "recent_orders_query w customer_id = []"
proof -
  have "filter (\<lambda>od. o_customer_id od = customer_id) (t_orders w) = []"
    using assms by (simp add: filter_empty_conv)
  then show ?thesis by (simp add: recent_orders_query_def order_by_desc_def)
qed

text \<open>
  C3. In the three implementations that query the storage, with a working storage, a
  customer who is in the customers table and has no order gets a context, not
  \<^verbatim>\<open>None\<close>, with \<open>total_orders = 0\<close>, \<open>total_spent = 0\<close> and no recent order:
  the left join keeps the customer's row, the count skips its NULLs, and the NULL sum
  becomes 0 (by \<^verbatim>\<open>COALESCE\<close> in the PostgreSQL query, by the conditional
  expression in the pyodbc code).
\<close>

theorem get_customer_context_zero_orders:
  assumes "impl \<in> {PostgreSQLAdapter_get_customer_context,
                    SQLDatabaseAdapter_get_customer_context,
                    agents_sql_get_customer_context}"
    and "fault w = NoFault"
    and "\<exists>c \<in> set (t_customers w). c_customer_id c = customer_id"
    and "\<forall>od \<in> set (t_orders w). o_customer_id od \<noteq> customer_id"
  shows "\<exists>ctx. snd (impl py w customer_id) = Inr (Some ctx)
           \<and> total_orders ctx = 0 \<and> total_spent ctx = 0 \<and> recent_orders ctx = []"
proof -
  from select_customer_no_orders [OF assms(2,3,4)] obtain c
    where "select_customer w customer_id = Inr (Some (c, 0, None))" ..
  moreover have "select_recent_orders w customer_id = Inr []"
    using assms(2) by (simp add: select_recent_orders_def recent_orders_query_no_orders [OF assms(4)])
  ultimately show ?thesis
    using assms(1,2)
    by (auto simp add: PostgreSQLAdapter_get_customer_context_def
        SQLDatabaseAdapter_get_customer_context_def agents_sql_get_customer_context_def
        connect_NoFault)
qed

text \<open>Customer 2 of the shop has no order.\<close>

theorem get_customer_context_zero_orders_witness:
  "fault shop = NoFault
   \<and> snd (PostgreSQLAdapter_get_customer_context example_py shop 2) =
       Inr (Some \<lparr>name = ''Alan Ray'', email = ''alan@example.org'', phone = [],
                  total_orders = 0, total_spent = 0, recent_orders = []\<rparr>)
   \<and> snd (agents_sql_get_customer_context example_py shop 2) =
       Inr (Some \<lparr>name = ''Alan Ray'', email = ''alan@example.org'', phone = [],
                  total_orders = 0, total_spent = 0, recent_orders = []\<rparr>)"
  using get_customer_context_zero_orders
      [of PostgreSQLAdapter_get_customer_context shop 2 example_py]
    get_customer_context_zero_orders
      [of agents_sql_get_customer_context shop 2 example_py]
  by (simp add: shop_def PostgreSQLAdapter_get_customer_context_def
      agents_sql_get_customer_context_def connect_def Let_def select_customer_def
      customer_aggregate_def select_recent_orders_def recent_orders_query_def
      order_by_desc_def statement_fault_def log_event_def List.map_filter_def)

lemma context_absent:
  assumes "fault w = NoFault" and "\<forall>c \<in> set (t_customers w). c_customer_id c \<noteq> customer_id"
  shows "PostgreSQLAdapter_get_customer_context py w customer_id =
           (w\<lparr>trace := trace w @ [ConnAttempt, ConnOpened, ConnClosed]\<rparr>, Inr None)"
    and "SQLDatabaseAdapter_get_customer_context py w customer_id =
           (w\<lparr>trace := trace w @ [ConnAttempt, ConnOpened, CtxExit]\<rparr>, Inr None)"
    and "agents_sql_get_customer_context py w customer_id =
           (w\<lparr>trace := trace w @ [ConnAttempt, ConnOpened, CtxExit]\<rparr>, Inr None)"
  using assms
  by (simp_all add: PostgreSQLAdapter_get_customer_context_def
      SQLDatabaseAdapter_get_customer_context_def agents_sql_get_customer_context_def
      connect_NoFault select_customer_absent close_def ctx_exit_def log_event_def)

text \<open>
  C4. With a working storage and no customer row of the identifier, the context
  operation returns \<^verbatim>\<open>None\<close>, and \<^verbatim>\<open>generate_ai_response\<close> returns its
  fixed not-found text as a value. The world it leaves differs from the one it started in
  by the three events of the one connection only: no request to the model, no row added.
  The chat route, for a request that passes its validation, answers with that text under
  \<^verbatim>\<open>response\<close>, not under \<^verbatim>\<open>error\<close>.
\<close>

theorem absent_customer_not_found:
  assumes "fault w = NoFault" and "\<forall>c \<in> set (t_customers w). c_customer_id c \<noteq> customer_id"
  shows "(impl \<in> {PostgreSQLAdapter_get_customer_context,
                   SQLDatabaseAdapter_get_customer_context,
                   agents_sql_get_customer_context} \<longrightarrow>
            snd (impl py w customer_id) = Inr None)
       \<and> (lower (case env ''DB_TYPE'' of None \<Rightarrow> ''postgresql'' | Some v \<Rightarrow> v)
             \<in> {''postgresql'', ''sql''} \<longrightarrow>
            (\<exists>e \<in> {ConnClosed, CtxExit}.
               agents_postgresql_generate_ai_response py env llm w customer_id user_message =
                 (w\<lparr>trace := trace w @ [ConnAttempt, ConnOpened, e]\<rparr>,
                  Inr ''I couldn't find your customer information. Please verify your customer ID.''))
            \<and> (req_customer_id data = Some customer_id \<and> customer_id \<noteq> 0
                 \<and> req_message data = Some user_message \<and> user_message \<noteq> [] \<longrightarrow>
                snd (agents_postgresql_chat py env llm w data) =
                  Response ''I couldn't find your customer information. Please verify your customer ID.''))
       \<and> agents_sql_generate_ai_response py llm w customer_id user_message =
           (w\<lparr>trace := trace w @ [ConnAttempt, ConnOpened, CtxExit]\<rparr>,
            Inr ''Customer not found. Please check your customer ID.'')
       \<and> (req_customer_id data = Some customer_id \<and> customer_id \<noteq> 0
            \<and> req_message data = Some user_message \<and> user_message \<noteq> [] \<longrightarrow>
           snd (agents_sql_chat py llm w data) =
             Response ''Customer not found. Please check your customer ID.'')"
proof (intro conjI impI)
  assume "impl \<in> {PostgreSQLAdapter_get_customer_context,
                   SQLDatabaseAdapter_get_customer_context,
                   agents_sql_get_customer_context}"
  then show "snd (impl py w customer_id) = Inr None"
    using context_absent [OF assms, of py] by auto
next
  show sql: "agents_sql_generate_ai_response py llm w customer_id user_message =
           (w\<lparr>trace := trace w @ [ConnAttempt, ConnOpened, CtxExit]\<rparr>,
            Inr ''Customer not found. Please check your customer ID.'')"
    by (simp add: agents_sql_generate_ai_response_def context_absent [OF assms])
  assume "req_customer_id data = Some customer_id \<and> customer_id \<noteq> 0
            \<and> req_message data = Some user_message \<and> user_message \<noteq> []"
  then show "snd (agents_sql_chat py llm w data) =
             Response ''Customer not found. Please check your customer ID.''"
    by (simp add: agents_sql_chat_def sql)
next
  assume sel: "lower (case env ''DB_TYPE'' of None \<Rightarrow> ''postgresql'' | Some v \<Rightarrow> v)
             \<in> {''postgresql'', ''sql''}"
  then show pg: "\<exists>e \<in> {ConnClosed, CtxExit}.
               agents_postgresql_generate_ai_response py env llm w customer_id user_message =
                 (w\<lparr>trace := trace w @ [ConnAttempt, ConnOpened, e]\<rparr>,
                  Inr ''I couldn't find your customer information. Please verify your customer ID.'')"
    by (auto simp add: agents_postgresql_generate_ai_response_def create_adapter_def Let_def
        context_absent [OF assms])
  assume "req_customer_id data = Some customer_id \<and> customer_id \<noteq> 0
                 \<and> req_message data = Some user_message \<and> user_message \<noteq> []"
  then show "snd (agents_postgresql_chat py env llm w data) =
                  Response ''I couldn't find your customer information. Please verify your customer ID.''"
    using pg by (auto simp add: agents_postgresql_chat_def)
qed

text \<open>Nobody in the shop has the identifier 3.\<close>

theorem absent_customer_not_found_witness:
  "fault shop = NoFault
   \<and> 3 \<notin> set (map c_customer_id (t_customers shop))
   \<and> snd (PostgreSQLAdapter_get_customer_context example_py shop 3) = Inr None
   \<and> agents_sql_generate_ai_response example_py example_llm shop 3 ''Where is my order?'' =
       (shop\<lparr>trace := [ConnAttempt, ConnOpened, CtxExit]\<rparr>,
        Inr ''Customer not found. Please check your customer ID.'')
   \<and> agents_postgresql_generate_ai_response example_py (\<lambda>k. None) example_llm shop 3
        ''Where is my order?'' =
       (shop\<lparr>trace := [ConnAttempt, ConnOpened, ConnClosed]\<rparr>,
        Inr ''I couldn't find your customer information. Please verify your customer ID.'')
   \<and> snd (agents_postgresql_chat example_py (\<lambda>k. None) example_llm shop
        \<lparr>req_customer_id = Some 3, req_message = Some ''Where is my order?''\<rparr>) =
       Response ''I couldn't find your customer information. Please verify your customer ID.''"
  using absent_customer_not_found [of shop 3 PostgreSQLAdapter_get_customer_context example_py
      "\<lambda>k. None" example_llm "''Where is my order?''"
      "\<lparr>req_customer_id = Some 3, req_message = Some ''Where is my order?''\<rparr>"]
  by (auto simp add: shop_def lower_def lower_char_def
      agents_postgresql_generate_ai_response_def create_adapter_def Let_def
      PostgreSQLAdapter_get_customer_context_def connect_def select_customer_def
      customer_aggregate_def close_def log_event_def statement_fault_def)

section \<open>The recent orders\<close>

lemma context_impl_recent_orders:
  assumes "impl \<in> {PostgreSQLAdapter_get_customer_context,
                    SQLDatabaseAdapter_get_customer_context,
                    agents_sql_get_customer_context}"
    and "snd (impl py w customer_id) = Inr (Some ctx)"
  shows "recent_orders ctx = map (summary_of_row py) (recent_orders_query w customer_id)"
  using assms connect_cases [of w]
  by (auto simp add: PostgreSQLAdapter_get_customer_context_def
      SQLDatabaseAdapter_get_customer_context_def agents_sql_get_customer_context_def
      select_recent_orders_def
      split: sum.splits option.splits prod.splits)

lemma filter_concat_tagged:
  assumes "distinct xs" and "inj_on g (set xs)" and "x \<in> set xs"
  shows "filter (\<lambda>(y, l). g y = g x) (concat (map (\<lambda>y. map (\<lambda>l. (y, l)) (f y)) xs)) =
           map (\<lambda>l. (x, l)) (f x)"
  using assms
proof (induction xs)
  case Nil
  then show ?case by simp
next
  case (Cons a xs)
  have other: "filter (\<lambda>(y, l). g y = g x) (map (\<lambda>l. (z, l)) (f z)) = []"
    if "g z \<noteq> g x" for z
    using that by (simp add: filter_empty_conv)
  have same: "filter (\<lambda>(y, l). g y = g x) (map (\<lambda>l. (x, l)) (f x)) = map (\<lambda>l. (x, l)) (f x)"
    by (simp add: filter_id_conv)
  have none: "filter (\<lambda>(y, l). g y = g x) (concat (map (\<lambda>y. map (\<lambda>l. (y, l)) (f y)) ys)) = []"
    if "\<forall>y \<in> set ys. g y \<noteq> g x" for ys
    using that by (induction ys) (simp_all add: filter_empty_conv)
  show ?case
  proof (cases "a = x")
    case True
    then have "\<forall>y \<in> set xs. g y \<noteq> g x"
      using Cons.prems by (auto simp add: inj_on_def)
    then show ?thesis using True same none by simp
  next
    case False
    then have "x \<in> set xs" and "g a \<noteq> g x"
      using Cons.prems by (auto simp add: inj_on_def)
    then show ?thesis
      using Cons.IH Cons.prems other [of a] by (simp add: inj_on_def)
  qed
qed

lemma recent_orders_query_rows:
  assumes "distinct (map o_order_id (t_orders w))"
    and "row \<in> set (recent_orders_query w customer_id)"
  shows "\<exists>od \<in> set (t_orders w). o_customer_id od = customer_id
           \<and> order_lines w od \<noteq> []
           \<and> row = (order_key od,
                join '', '' (map (\<lambda>(oi, p). p_product_name p) (order_lines w od)))"
proof -
  let ?ords = "filter (\<lambda>od. o_customer_id od = customer_id) (t_orders w)"
  let ?joined = "concat (map (\<lambda>od. map (\<lambda>l. (od, l)) (order_lines w od)) ?ords)"
  let ?names = "\<lambda>k. map (\<lambda>(od, oi, p). p_product_name p)
                       (filter (\<lambda>(od, l). order_key od = k) ?joined)"
  have dist: "distinct (map o_order_id ?ords)"
    using assms(1) by (rule distinct_map_filter)
  then have d: "distinct ?ords" by (simp add: distinct_map)
  have inj: "inj_on order_key (set ?ords)"
  proof (rule inj_onI)
    fix a b assume "a \<in> set ?ords" "b \<in> set ?ords" "order_key a = order_key b"
    then have "o_order_id a = o_order_id b" by (simp add: order_key_def)
    with dist \<open>a \<in> set ?ords\<close> \<open>b \<in> set ?ords\<close> show "a = b"
      by (meson distinct_map inj_onD)
  qed
  from assms(2) have "row \<in> set (map (\<lambda>k. (k, join '', '' (?names k)))
                         (remdups (map (\<lambda>(od, l). order_key od) ?joined)))"
    unfolding recent_orders_query_def Let_def order_by_desc_def
    by (auto dest!: in_set_takeD)
  then obtain k where k: "k \<in> set (map (\<lambda>(od, l). order_key od) ?joined)"
    and row: "row = (k, join '', '' (?names k))"
    unfolding set_map set_remdups by blast
  from k obtain od l where od: "od \<in> set ?ords" and l: "l \<in> set (order_lines w od)"
    and kod: "k = order_key od" by auto
  have "filter (\<lambda>(od', l). order_key od' = order_key od) ?joined =
          map (\<lambda>l. (od, l)) (order_lines w od)"
    using d inj od by (rule filter_concat_tagged)
  then have "?names k = map (\<lambda>(oi, p). p_product_name p) (order_lines w od)"
    by (simp add: kod comp_def case_prod_unfold)
  with row kod od l show ?thesis by auto
qed

lemma recent_orders_query_length: "length (recent_orders_query w customer_id) \<le> 5"
  by (simp add: recent_orders_query_def Let_def)

text \<open>
  C5, as the code has it. The detail query joins orders to their line items and products
  with inner joins, so an order appears among the recent orders only if it has a line
  item with a product. With \<^verbatim>\<open>order_id\<close> the key of the orders table, every
  order summary returned (at most 5) belongs to an order of the customer that has at
  least one line item, and its \<^verbatim>\<open>products\<close> field is the names of the products
  of that order's line items joined by a comma and a space.
\<close>

theorem recent_orders_products:
  assumes "impl \<in> {PostgreSQLAdapter_get_customer_context,
                    SQLDatabaseAdapter_get_customer_context,
                    agents_sql_get_customer_context}"
    and "distinct (map o_order_id (t_orders w))"
    and "snd (impl py w customer_id) = Inr (Some ctx)"
  shows "length (recent_orders ctx) \<le> 5
       \<and> (\<forall>s \<in> set (recent_orders ctx).
            \<exists>od \<in> set (t_orders w).
              o_customer_id od = customer_id \<and> order_id s = o_order_id od
              \<and> (\<exists>oi \<in> set (t_order_items w). oi_order_id oi = order_id s)
              \<and> order_lines w od \<noteq> []
              \<and> products s =
                  join '', '' (map (\<lambda>(oi, p). p_product_name p) (order_lines w od)))"
proof -
  have ro: "recent_orders ctx = map (summary_of_row py) (recent_orders_query w customer_id)"
    using assms(1,3) by (rule context_impl_recent_orders)
  have items: "\<exists>oi \<in> set (t_order_items w). oi_order_id oi = o_order_id od"
    if "order_lines w od \<noteq> []" for od
  proof -
    from that obtain oi p where "(oi, p) \<in> set (order_lines w od)"
      by (cases "order_lines w od") auto
    then show ?thesis by (auto simp add: order_lines_def)
  qed
  show ?thesis
  proof (intro conjI ballI)
    show "length (recent_orders ctx) \<le> 5" by (simp add: ro recent_orders_query_length)
  next
    fix s assume "s \<in> set (recent_orders ctx)"
    then obtain row where row: "row \<in> set (recent_orders_query w customer_id)"
      and s: "s = summary_of_row py row" by (auto simp add: ro)
    from recent_orders_query_rows [OF assms(2) row] obtain od
      where "od \<in> set (t_orders w)" "o_customer_id od = customer_id" "order_lines w od \<noteq> []"
        "row = (order_key od,
                join '', '' (map (\<lambda>(oi, p). p_product_name p) (order_lines w od)))"
      by blast
    then show "\<exists>od \<in> set (t_orders w).
              o_customer_id od = customer_id \<and> order_id s = o_order_id od
              \<and> (\<exists>oi \<in> set (t_order_items w). oi_order_id oi = order_id s)
              \<and> order_lines w od \<noteq> []
              \<and> products s =
                  join '', '' (map (\<lambda>(oi, p). p_product_name p) (order_lines w od))"
      using items [of od] by (intro bexI [of _ od]) (simp_all add: s summary_of_row_def order_key_def)
  qed
qed

text \<open>Customer 1 of the shop: orders 11 and 10 with their products.\<close>

theorem recent_orders_products_witness:
  "distinct (map o_order_id (t_orders shop))
   \<and> snd (PostgreSQLAdapter_get_customer_context example_py shop 1) =
       Inr (Some \<lparr>name = ''Ada Byron'', email = ''ada@example.org'', phone = ''555-0100'',
                  total_orders = 3, total_spent = 150,
                  recent_orders =
                    [\<lparr>order_id = 11, date = ''2024-05-21'', amount = 50, status = ''pending'',
                      products = ''Widget''\<rparr>,
                     \<lparr>order_id = 10, date = ''2024-05-20'', amount = 100, status = ''shipped'',
                      products = ''Widget, Gadget''\<rparr>]\<rparr>)"
  using recent_orders_products [of PostgreSQLAdapter_get_customer_context shop example_py 1]
  by (simp add: shop_def example_py_def PostgreSQLAdapter_get_customer_context_def
      connect_def Let_def select_customer_def customer_aggregate_def
      select_recent_orders_def recent_orders_query_def order_lines_def order_key_def
      order_by_desc_def statement_fault_def log_event_def List.map_filter_def
      summary_of_row_def close_def)

text \<open>
  Order 12 of customer 1 has no line item. It is counted in \<open>total_orders\<close> and it is
  the newest order, yet it is not among the recent orders.
\<close>

theorem order_without_line_items_counterexample:
  "\<lparr>o_order_id = 12, o_customer_id = 1, o_order_date = 22, o_total_amount = 0,
     o_status = ''new''\<rparr> \<in> set (t_orders shop)
   \<and> order_lines shop \<lparr>o_order_id = 12, o_customer_id = 1, o_order_date = 22,
        o_total_amount = 0, o_status = ''new''\<rparr> = []
   \<and> snd (agents_sql_get_customer_context example_py shop 1) =
       Inr (Some \<lparr>name = ''Ada Byron'', email = ''ada@example.org'', phone = ''555-0100'',
                  total_orders = 3, total_spent = 150,
                  recent_orders =
                    [\<lparr>order_id = 11, date = ''2024-05-21'', amount = 50, status = ''pending'',
                      products = ''Widget''\<rparr>,
                     \<lparr>order_id = 10, date = ''2024-05-20'', amount = 100, status = ''shipped'',
                      products = ''Widget, Gadget''\<rparr>]\<rparr>)"
  by (simp add: shop_def example_py_def agents_sql_get_customer_context_def
      connect_def Let_def select_customer_def customer_aggregate_def
      select_recent_orders_def recent_orders_query_def order_lines_def order_key_def
      order_by_desc_def statement_fault_def log_event_def List.map_filter_def
      summary_of_row_def ctx_exit_def)

section \<open>Storing a turn\<close>

lemma pg_store_returns:
  assumes "PostgreSQLAdapter_store_conversation w customer_id user_message ai_response = (w', Inr v)"
  shows "v = Some (next_id w) \<and> w' = stored w customer_id user_message ai_response ConnClosed"
  using assms
  by (auto simp add: PostgreSQLAdapter_store_conversation_def connect_def Let_def
      insert_conversation_def statement_fault_def close_def log_event_def stored_def
      split: fault.splits if_splits)

lemma sqla_store_returns:
  assumes "SQLDatabaseAdapter_store_conversation w customer_id user_message ai_response = (w', Inr v)"
  shows "v = Some (next_id w) \<and> w' = stored w customer_id user_message ai_response CtxExit"
  using assms
  by (auto simp add: SQLDatabaseAdapter_store_conversation_def connect_def Let_def
      insert_conversation_def statement_fault_def ctx_exit_def log_event_def stored_def
      split: fault.splits if_splits)

lemma save_conversation_returns:
  assumes "agents_sql_save_conversation w customer_id user_message ai_response = (w', Inr v)"
  shows "v = None \<and> w' = stored w customer_id user_message ai_response CtxExit"
  using assms
  by (auto simp add: agents_sql_save_conversation_def connect_def Let_def
      insert_conversation_def statement_fault_def ctx_exit_def log_event_def stored_def
      split: fault.splits if_splits)

lemma store_NoFault:
  assumes "fault w = NoFault"
  shows "snd (PostgreSQLAdapter_store_conversation w customer_id user_message ai_response) =
           Inr (Some (next_id w))"
    and "snd (SQLDatabaseAdapter_store_conversation w customer_id user_message ai_response) =
           Inr (Some (next_id w))"
    and "snd (agents_sql_save_conversation w customer_id user_message ai_response) = Inr None"
  using assms
  by (simp_all add: PostgreSQLAdapter_store_conversation_def
      SQLDatabaseAdapter_store_conversation_def agents_sql_save_conversation_def
      connect_NoFault insert_conversation_def log_event_def)

text \<open>
  C6, as the code has it. A call that returns has inserted exactly one row, with the
  identifier the storage generated, and changed nothing else but the generator and the
  trace. \<^verbatim>\<open>store_conversation\<close> of \<^verbatim>\<open>PostgreSQLAdapter\<close> and of
  \<^verbatim>\<open>SQLDatabaseAdapter\<close> returns that identifier;
  \<^verbatim>\<open>save_conversation\<close> of \<^verbatim>\<open>agents-sql/app.py\<close> returns
  \<^verbatim>\<open>None\<close>. On a working storage each of the three returns.
\<close>

theorem store_conversation_one_row:
  "(PostgreSQLAdapter_store_conversation w customer_id user_message ai_response = (w', Inr v) \<longrightarrow>
      v = Some (next_id w) \<and> w' = stored w customer_id user_message ai_response ConnClosed)
   \<and> (SQLDatabaseAdapter_store_conversation w customer_id user_message ai_response = (w', Inr v) \<longrightarrow>
      v = Some (next_id w) \<and> w' = stored w customer_id user_message ai_response CtxExit)
   \<and> (agents_sql_save_conversation w customer_id user_message ai_response = (w', Inr v) \<longrightarrow>
      v = None \<and> w' = stored w customer_id user_message ai_response CtxExit)
   \<and> t_conversation_history (stored w customer_id user_message ai_response e) =
       t_conversation_history w @
         [\<lparr>h_id = next_id w, h_customer_id = customer_id, h_user_message = user_message,
           h_ai_response = ai_response, h_timestamp = clock w\<rparr>]
   \<and> (fault w = NoFault \<longrightarrow>
        snd (PostgreSQLAdapter_store_conversation w customer_id user_message ai_response) =
          Inr (Some (next_id w))
        \<and> snd (SQLDatabaseAdapter_store_conversation w customer_id user_message ai_response) =
          Inr (Some (next_id w))
        \<and> snd (agents_sql_save_conversation w customer_id user_message ai_response) = Inr None)"
  using pg_store_returns [of w customer_id user_message ai_response w' v]
    sqla_store_returns [of w customer_id user_message ai_response w' v]
    save_conversation_returns [of w customer_id user_message ai_response w' v]
    store_NoFault [of w customer_id user_message ai_response]
  by (simp add: stored_def)

text \<open>Storing a turn of customer 1 in the shop generates the identifier 6.\<close>

theorem store_conversation_one_row_witness:
  "fault shop = NoFault
   \<and> PostgreSQLAdapter_store_conversation shop 1 ''Where is my order?'' ''On its way.'' =
       (shop\<lparr>t_conversation_history :=
               t_conversation_history shop @
                 [\<lparr>h_id = 6, h_customer_id = 1, h_user_message = ''Where is my order?'',
                   h_ai_response = ''On its way.'', h_timestamp = 6\<rparr>],
             next_id := 7,
             trace := [ConnAttempt, ConnOpened, ConnClosed]\<rparr>,
        Inr (Some 6))"
  using store_conversation_one_row [of shop 1 "''Where is my order?''" "''On its way.''"
      "fst (PostgreSQLAdapter_store_conversation shop 1 ''Where is my order?'' ''On its way.'')"
      "Some 6"]
  by (simp add: shop_def PostgreSQLAdapter_store_conversation_def connect_def Let_def
      insert_conversation_def statement_fault_def close_def log_event_def)

text \<open>
  \<^verbatim>\<open>save_conversation\<close> inserts the row with the generated identifier 6 and
  returns \<^verbatim>\<open>None\<close>, not 6.
\<close>

theorem save_conversation_returns_no_identifier_counterexample:
  "agents_sql_save_conversation shop 1 ''Where is my order?'' ''On its way.'' =
     (shop\<lparr>t_conversation_history :=
             t_conversation_history shop @
               [\<lparr>h_id = 6, h_customer_id = 1, h_user_message = ''Where is my order?'',
                 h_ai_response = ''On its way.'', h_timestamp = 6\<rparr>],
           next_id := 7,
           trace := [ConnAttempt, ConnOpened, CtxExit]\<rparr>,
      Inr None)
   \<and> snd (agents_sql_save_conversation shop 1 ''Where is my order?'' ''On its way.'') \<noteq>
       Inr (Some 6)"
  by (simp add: shop_def agents_sql_save_conversation_def connect_def Let_def
      insert_conversation_def statement_fault_def ctx_exit_def log_event_def)

section \<open>Connections on the exit paths\<close>

text \<open>
  The operations of \<^verbatim>\<open>PostgreSQLAdapter\<close> call \<^verbatim>\<open>conn.close()\<close> before
  each \<^verbatim>\<open>return\<close>, so a call that returns holds no connection.
\<close>

lemma PostgreSQLAdapter_release_on_return:
  "snd (PostgreSQLAdapter_store_conversation w customer_id user_message ai_response) = Inr v \<Longrightarrow>
     open_connections
       (trace (fst (PostgreSQLAdapter_store_conversation w customer_id user_message ai_response))) =
     open_connections (trace w)"
  "snd (PostgreSQLAdapter_get_conversation_history py w customer_id limit) = Inr turns \<Longrightarrow>
     open_connections
       (trace (fst (PostgreSQLAdapter_get_conversation_history py w customer_id limit))) =
     open_connections (trace w)"
  "snd (PostgreSQLAdapter_get_customer_context py w customer_id) = Inr ctx \<Longrightarrow>
     open_connections
       (trace (fst (PostgreSQLAdapter_get_customer_context py w customer_id))) =
     open_connections (trace w)"
  using connect_cases [of w]
  by (auto simp add: PostgreSQLAdapter_store_conversation_def
      PostgreSQLAdapter_get_conversation_history_def PostgreSQLAdapter_get_customer_context_def
      insert_conversation_def close_def open_connections_def
      split: sum.splits option.splits prod.splits if_splits)

text \<open>
  When a statement fails after the connection was obtained, the \<^verbatim>\<open>except\<close>
  clause raises again without closing it.
\<close>

lemma PostgreSQLAdapter_leak_on_statement_failure:
  assumes "fault w = ExecuteFails 0 m"
  shows "open_connections
       (trace (fst (PostgreSQLAdapter_store_conversation w customer_id user_message ai_response))) =
     open_connections (trace w) + 1"
    and "open_connections
       (trace (fst (PostgreSQLAdapter_get_conversation_history py w customer_id limit))) =
     open_connections (trace w) + 1"
    and "open_connections
       (trace (fst (PostgreSQLAdapter_get_customer_context py w customer_id))) =
     open_connections (trace w) + 1"
  using assms
  by (simp_all add: PostgreSQLAdapter_store_conversation_def
      PostgreSQLAdapter_get_conversation_history_def PostgreSQLAdapter_get_customer_context_def
      connect_def Let_def insert_conversation_def select_history_def select_customer_def
      statement_fault_def open_connections_def)

text \<open>
  C8 says that no repository operation ends, normally or by an exception, while it holds
  an open connection. Three calls of \<^verbatim>\<open>PostgreSQLAdapter\<close> that end by an
  exception with the connection obtained and never closed: the history with the limit
  \<open>-1\<close>, which the engine rejects; the context when its second statement fails; the
  store when its statement fails. The trace of the shop starts with no open connection.
\<close>

theorem PostgreSQLAdapter_exception_keeps_connection:
  "PostgreSQLAdapter_get_conversation_history example_py shop 1 (- 1) =
     (shop\<lparr>trace := [ConnAttempt, ConnOpened]\<rparr>,
      Inl (StorageError ''the row count must not be negative''))
   \<and> open_connections
       (trace (fst (PostgreSQLAdapter_get_conversation_history example_py shop 1 (- 1)))) = 1
   \<and> PostgreSQLAdapter_get_customer_context example_py
       (shop\<lparr>fault := ExecuteFails 1 ''server closed the connection unexpectedly''\<rparr>) 1 =
     (shop\<lparr>fault := ExecuteFails 1 ''server closed the connection unexpectedly'',
           trace := [ConnAttempt, ConnOpened]\<rparr>,
      Inl (StorageError ''server closed the connection unexpectedly''))
   \<and> PostgreSQLAdapter_store_conversation
       (shop\<lparr>fault := ExecuteFails 0 ''server closed the connection unexpectedly''\<rparr>)
       1 ''Where is my order?'' ''On its way.'' =
     (shop\<lparr>fault := ExecuteFails 0 ''server closed the connection unexpectedly'',
           trace := [ConnAttempt, ConnOpened]\<rparr>,
      Inl (StorageError ''server closed the connection unexpectedly''))
   \<and> open_connections (trace shop) = 0"
  by (simp add: shop_def PostgreSQLAdapter_get_conversation_history_def
      PostgreSQLAdapter_get_customer_context_def PostgreSQLAdapter_store_conversation_def
      connect_def Let_def select_history_def select_customer_def select_recent_orders_def
      insert_conversation_def customer_aggregate_def List.map_filter_def
      statement_fault_def log_event_def open_connections_def)

section \<open>Errors at the chat route\<close>

text \<open>
  C9, as the code has it. For a request that passes the validation, whenever
  \<^verbatim>\<open>generate_ai_response\<close> ends by an exception the chat route answers with
  status 500 and, under \<^verbatim>\<open>error\<close>, the text of that exception as it is:
  nothing is removed from it. When the storage refuses the connection, the text is the
  driver's.
\<close>

theorem chat_error_is_exception_text:
  "req_customer_id data = Some customer_id \<and> customer_id \<noteq> 0
   \<and> req_message data = Some msg \<and> msg \<noteq> [] \<longrightarrow>
     (\<forall>e. snd (agents_postgresql_generate_ai_response py env llm w customer_id msg) = Inl e \<longrightarrow>
           snd (agents_postgresql_chat py env llm w data) = Error 500 (str_error e))
     \<and> (\<forall>e. snd (agents_sql_generate_ai_response py llm w customer_id msg) = Inl e \<longrightarrow>
           snd (agents_sql_chat py llm w data) = Error 500 (str_error e))
     \<and> (\<forall>m. fault w = ConnectFails m \<longrightarrow>
           snd (agents_sql_chat py llm w data) = Error 500 m
           \<and> (lower (case env ''DB_TYPE'' of None \<Rightarrow> ''postgresql'' | Some v \<Rightarrow> v)
                 \<in> {''postgresql'', ''sql''} \<longrightarrow>
               snd (agents_postgresql_chat py env llm w data) = Error 500 m))"
  by (auto simp add: agents_postgresql_chat_def agents_sql_chat_def
      agents_sql_generate_ai_response_def agents_postgresql_generate_ai_response_def
      agents_sql_get_customer_context_def PostgreSQLAdapter_get_customer_context_def
      SQLDatabaseAdapter_get_customer_context_def create_adapter_def connect_def Let_def
      split: prod.splits sum.splits)

text \<open>A refused connection: the driver's text is the error text of the reply.\<close>

theorem chat_error_is_exception_text_witness:
  "snd (agents_sql_chat example_py example_llm
         (shop\<lparr>fault := ConnectFails ''Login timeout expired''\<rparr>)
         \<lparr>req_customer_id = Some 1, req_message = Some ''hi''\<rparr>) =
     Error 500 ''Login timeout expired''
   \<and> snd (agents_postgresql_chat example_py example_env example_llm
         (shop\<lparr>fault := ConnectFails ''Login timeout expired''\<rparr>)
         \<lparr>req_customer_id = Some 1, req_message = Some ''hi''\<rparr>) =
     Error 500 ''Login timeout expired''"
  using chat_error_is_exception_text
      [of "\<lparr>req_customer_id = Some 1, req_message = Some ''hi''\<rparr>" 1 "''hi''"
          example_py example_env example_llm
          "shop\<lparr>fault := ConnectFails ''Login timeout expired''\<rparr>"]
  by (simp add: example_env_def lower_def lower_char_def)

text \<open>
  A driver message that quotes the connection string reaches the caller with the
  password in it.
\<close>

theorem chat_error_leaks_password_counterexample:
  "example_env ''POSTGRES_PASSWORD'' = Some ''s3cret''
   \<and> snd (agents_postgresql_chat example_py example_env example_llm
         (shop\<lparr>fault := ConnectFails (''invalid dsn: '' @ postgres_connection_string example_env)\<rparr>)
         \<lparr>req_customer_id = Some 1, req_message = Some ''hi''\<rparr>) =
     Error 500 (''invalid dsn: host=db port=5432 dbname=shop user=app password=''
                @ ''s3cret'' @ '' sslmode=require'')
   \<and> sublist ''s3cret''
       (''invalid dsn: host=db port=5432 dbname=shop user=app password=''
        @ ''s3cret'' @ '' sslmode=require'')"
proof -
  have "sublist ''s3cret''
       (''invalid dsn: host=db port=5432 dbname=shop user=app password=''
        @ ''s3cret'' @ '' sslmode=require'')"
    by (rule sublist_appendI)
  then show ?thesis
    by (simp add: example_env_def postgres_connection_string_def fstr_env_def
        agents_postgresql_chat_def agents_postgresql_generate_ai_response_def
        create_adapter_def lower_def lower_char_def Let_def
        PostgreSQLAdapter_get_customer_context_def connect_def log_event_def)
qed

section \<open>The request sent to the model\<close>

lemma model_calls_append: "model_calls (tr @ tr') = model_calls tr @ model_calls tr'"
  by (induction tr rule: model_calls.induct) simp_all

lemma connect_model_calls:
  "model_calls (trace (fst (connect w))) = model_calls (trace w)"
  by (cases "fault w") (simp_all add: connect_def Let_def model_calls_append)








end
